theory Spec2Isabelle
  imports Complex_Main "HOL-Library.Monad_Syntax"
begin

section \<open>Vectors\<close>

text \<open>
  The C++ code computes with \<^verbatim>\<open>double\<close>. The model idealises a double as a
  \<^typ>\<open>real\<close>: rounding, infinities and NaN are not represented. An
  \<^verbatim>\<open>Eigen::Vector3d\<close> is a triple of reals and an \<^verbatim>\<open>Eigen::Vector6d\<close> is its
  \<^verbatim>\<open>head<3>()\<close> followed by its \<^verbatim>\<open>tail<3>()\<close>.
\<close>

datatype Vector3d = Vector3d (vx: real) (vy: real) (vz: real)

datatype Vector6d = Vector6d (head3: Vector3d) (tail3: Vector3d)

definition Zero3 :: Vector3d where
  "Zero3 = Vector3d 0 0 0"

definition Zero6 :: Vector6d where
  "Zero6 = Vector6d Zero3 Zero3"

fun cross :: "Vector3d \<Rightarrow> Vector3d \<Rightarrow> Vector3d" where
  "cross (Vector3d a1 a2 a3) (Vector3d b1 b2 b3) =
     Vector3d (a2 * b3 - a3 * b2) (a3 * b1 - a1 * b3) (a1 * b2 - a2 * b1)"

fun dot3 :: "Vector3d \<Rightarrow> Vector3d \<Rightarrow> real" where
  "dot3 (Vector3d a1 a2 a3) (Vector3d b1 b2 b3) = a1 * b1 + a2 * b2 + a3 * b3"

fun dot :: "Vector6d \<Rightarrow> Vector6d \<Rightarrow> real" where
  "dot (Vector6d a b) (Vector6d c d) = dot3 a c + dot3 b d"

fun plus3 :: "Vector3d \<Rightarrow> Vector3d \<Rightarrow> Vector3d" where
  "plus3 (Vector3d a1 a2 a3) (Vector3d b1 b2 b3) = Vector3d (a1 + b1) (a2 + b2) (a3 + b3)"

definition squaredNorm :: "Vector3d \<Rightarrow> real" where
  "squaredNorm v = dot3 v v"

text \<open>
  A dynamically sized Eigen matrix is kept as the list of its columns. Reading a column
  outside the matrix is undefined behaviour in C++ and \<open>None\<close> here.
\<close>

definition col :: "'a list \<Rightarrow> int \<Rightarrow> 'a option" where
  "col m i = (if 0 \<le> i \<and> i < int (length m) then Some (m ! nat i) else None)"

section \<open>Skeleton data\<close>

record Isometry3d =
  linear :: "Vector3d \<times> Vector3d \<times> Vector3d"
  translation :: Vector3d

text \<open>
  A joint points to its parent body node and a body node to its parent joint; either
  pointer may be null. The chain of parent pointers of a skeleton is finite, so a joint
  carries its chain of ancestors. \<open>jointAddr\<close> is the address of the joint object: the
  code compares joints as pointers. \<open>skeletonName\<close> is the name of the skeleton that
  \<^verbatim>\<open>getSkeleton()\<close> returns; the joint of a degree of freedom and the skeleton of a
  joint are never null.
\<close>

datatype Joint =
  Joint (jointAddr: nat) (skeletonName: string) (getTreeIndex: nat)
        (getIndexInTree: "nat \<Rightarrow> nat") (getRelativeJacobian: "Vector6d list")
        (getParentBodyNode: "BodyNode option")
and BodyNode =
  BodyNode (getWorldTransform: Isometry3d) (getParentJoint: "Joint option")

record DegreeOfFreedom =
  getJoint :: Joint
  getIndexInJoint :: nat
  getChildBodyNode :: BodyNode

record Skeleton =
  getName :: string
  getDofs :: "DegreeOfFreedom list"

section \<open>Contacts and constraints\<close>

datatype ContactType = UNSUPPORTED_CONTACT | VERTEX_FACE | FACE_VERTEX | EDGE_EDGE

record Contact =
  point :: Vector3d
  normal :: Vector3d
  type :: ContactType
  edgeAFixedPoint :: Vector3d
  edgeADir :: Vector3d
  edgeBFixedPoint :: Vector3d
  edgeBDir :: Vector3d

text \<open>
  \<^verbatim>\<open>constraint::ContactConstraint\<close>. Its two tangent basis functions are not part
  of the modelled sources; they are carried by the object as given functions, a matrix
  being the list of its columns.
\<close>

record ContactConstraint =
  getContact :: Contact
  getBodyNodeA :: BodyNode
  getBodyNodeB :: BodyNode
  getTangentBasisMatrixODE :: "Vector3d \<Rightarrow> Vector3d list"
  getTangentBasisMatrixODEGradient :: "Vector3d \<Rightarrow> Vector3d \<Rightarrow> Vector3d list"

datatype ConstraintBase = IsContactConstraint ContactConstraint | OtherConstraint

text \<open>
  The members of \<^verbatim>\<open>DifferentiableContactConstraint\<close>. The constructor sets
  \<^verbatim>\<open>mContactConstraint\<close> and \<^verbatim>\<open>mContact\<close> exactly when the wrapped constraint is a
  contact constraint and leaves them null otherwise, so both are read off \<open>mConstraint\<close>.
\<close>

record DifferentiableContactConstraint =
  mConstraint :: ConstraintBase
  mIndex :: int
  mSkeletons :: "string list"

fun isContactConstraint :: "ConstraintBase \<Rightarrow> bool" where
  "isContactConstraint (IsContactConstraint cc) = True"
| "isContactConstraint OtherConstraint = False"

fun mContactConstraint :: "DifferentiableContactConstraint \<Rightarrow> ContactConstraint option" where
  "mContactConstraint c =
     (case mConstraint c of IsContactConstraint cc \<Rightarrow> Some cc | OtherConstraint \<Rightarrow> None)"

fun mContact :: "DifferentiableContactConstraint \<Rightarrow> Contact option" where
  "mContact c =
     (case mConstraint c of IsContactConstraint cc \<Rightarrow> Some (getContact cc) | OtherConstraint \<Rightarrow> None)"

datatype DofContactType =
  UNSUPPORTED | NONE | VERTEX | FACE | EDGE_A | EDGE_B
  | VERTEX_FACE_SELF_COLLISION | EDGE_EDGE_SELF_COLLISION

section \<open>The ancestor tests\<close>

text \<open>
  The \<^verbatim>\<open>while (true)\<close> loop shared by both overloads of \<^verbatim>\<open>isParent\<close>: walk
  from a joint towards the root until the joint \<open>dofJoint\<close> is met or the chain ends.
\<close>

fun parentWalk :: "Joint \<Rightarrow> Joint \<Rightarrow> bool"
  and parentWalkBody :: "Joint \<Rightarrow> BodyNode \<Rightarrow> bool" where
  "parentWalk dofJoint (Joint a s t i r p) =
     (if a = jointAddr dofJoint then True
      else (case p of None \<Rightarrow> False | Some b \<Rightarrow> parentWalkBody dofJoint b))"
| "parentWalkBody dofJoint (BodyNode w pj) =
     (case pj of None \<Rightarrow> False | Some j \<Rightarrow> parentWalk dofJoint j)"

text \<open>
  \<^verbatim>\<open>isParent(dof, node)\<close>. The parent joint of \<open>node\<close> is dereferenced without a
  null check: \<open>None\<close> is that null dereference.
\<close>

definition isParent :: "DegreeOfFreedom \<Rightarrow> BodyNode \<Rightarrow> bool option" where
  "isParent dof node =
     (let dofJoint = getJoint dof in
      case getParentJoint node of
        None \<Rightarrow> None
      | Some nodeParentJoint \<Rightarrow>
          if skeletonName dofJoint \<noteq> skeletonName nodeParentJoint
             \<or> getTreeIndex dofJoint \<noteq> getTreeIndex nodeParentJoint
          then Some False
          else if getIndexInTree dofJoint 0 > getIndexInTree nodeParentJoint 0
          then Some False
          else Some (parentWalk dofJoint nodeParentJoint))"

text \<open>\<^verbatim>\<open>isParent(parent, child)\<close> on two degrees of freedom.\<close>

definition isParentDof :: "DegreeOfFreedom \<Rightarrow> DegreeOfFreedom \<Rightarrow> bool" where
  "isParentDof parent child =
     (let parentJoint = getJoint parent; childJoint = getJoint child in
      if jointAddr parentJoint = jointAddr childJoint
      then getIndexInJoint parent \<noteq> getIndexInJoint child
      else if skeletonName parentJoint \<noteq> skeletonName childJoint
              \<or> getTreeIndex parentJoint \<noteq> getTreeIndex childJoint
      then False
      else if getIndexInTree parentJoint 0 > getIndexInTree childJoint 0
      then False
      else parentWalk parentJoint childJoint)"

section \<open>Classification of a degree of freedom\<close>

definition getContactType :: "DifferentiableContactConstraint \<Rightarrow> ContactType" where
  "getContactType c =
     (case mContact c of None \<Rightarrow> UNSUPPORTED_CONTACT | Some k \<Rightarrow> type k)"

text \<open>
  \<^verbatim>\<open>getDofContactType\<close> reads both bodies through \<^verbatim>\<open>mContactConstraint\<close> without
  asking whether the constraint is a contact constraint; on any other constraint the
  pointer is null and the result is \<open>None\<close>.
\<close>

definition getDofContactType ::
  "DifferentiableContactConstraint \<Rightarrow> DegreeOfFreedom \<Rightarrow> DofContactType option" where
  "getDofContactType c dof =
     do {
       cc \<leftarrow> mContactConstraint c;
       isParentA \<leftarrow> isParent dof (getBodyNodeA cc);
       isParentB \<leftarrow> isParent dof (getBodyNodeB cc);
       if isParentA \<and> isParentB then
         (case getContactType c of
            FACE_VERTEX \<Rightarrow> Some VERTEX_FACE_SELF_COLLISION
          | VERTEX_FACE \<Rightarrow> Some VERTEX_FACE_SELF_COLLISION
          | EDGE_EDGE \<Rightarrow> Some EDGE_EDGE_SELF_COLLISION
          | UNSUPPORTED_CONTACT \<Rightarrow> Some UNSUPPORTED)
       else if \<not> isParentA \<and> \<not> isParentB then Some NONE
       else if isParentA then
         (case getContactType c of
            FACE_VERTEX \<Rightarrow> Some FACE
          | VERTEX_FACE \<Rightarrow> Some VERTEX
          | EDGE_EDGE \<Rightarrow> Some EDGE_B
          | UNSUPPORTED_CONTACT \<Rightarrow> Some UNSUPPORTED)
       else if isParentB then
         (case getContactType c of
            FACE_VERTEX \<Rightarrow> Some VERTEX
          | VERTEX_FACE \<Rightarrow> Some FACE
          | EDGE_EDGE \<Rightarrow> Some EDGE_A
          | UNSUPPORTED_CONTACT \<Rightarrow> Some UNSUPPORTED)
       else Some NONE
     }"

text \<open>
  \<^verbatim>\<open>getForceMultiple\<close>: 1.0 by default, 0.0 if the constraint does not affect the
  degree of freedom, and -1.0 if it affects it negatively.
\<close>

definition getForceMultiple ::
  "DifferentiableContactConstraint \<Rightarrow> DegreeOfFreedom \<Rightarrow> real option" where
  "getForceMultiple c dof =
     (if \<not> isContactConstraint (mConstraint c) then Some 1
      else do {
        cc \<leftarrow> mContactConstraint c;
        isParentA \<leftarrow> isParent dof (getBodyNodeA cc);
        isParentB \<leftarrow> isParent dof (getBodyNodeB cc);
        if isParentA \<and> isParentB then Some 0
        else if isParentA then Some 1
        else if isParentB then Some (- 1)
        else Some 0
      })"

section \<open>Functions of the math library\<close>

text \<open>
  The functions of namespace \<^verbatim>\<open>dart::math\<close> that the differentiator calls are not
  part of the modelled sources. They are parameters of the model: every result below holds
  for any choice of them.
\<close>

record math =
  AdT :: "Isometry3d \<Rightarrow> Vector6d \<Rightarrow> Vector6d"
  ad :: "Vector6d \<Rightarrow> Vector6d \<Rightarrow> Vector6d"
  gradientWrtTheta :: "Vector6d \<Rightarrow> Vector3d \<Rightarrow> real \<Rightarrow> Vector3d"
  gradientWrtThetaPureRotation :: "Vector3d \<Rightarrow> Vector3d \<Rightarrow> real \<Rightarrow> Vector3d"
  getContactPointGradient ::
    "Vector3d \<Rightarrow> Vector3d \<Rightarrow> Vector3d \<Rightarrow> Vector3d \<Rightarrow>
     Vector3d \<Rightarrow> Vector3d \<Rightarrow> Vector3d \<Rightarrow> Vector3d \<Rightarrow> Vector3d"

section \<open>World quantities of a constraint\<close>

definition getWorldScrewAxis :: "math \<Rightarrow> DegreeOfFreedom \<Rightarrow> Vector6d option" where
  "getWorldScrewAxis M dof =
     do {
       let jointIndex = int (getIndexInJoint dof);
       let relativeJac = getRelativeJacobian (getJoint dof);
       let childNode = getChildBodyNode dof;
       let transform = getWorldTransform childNode;
       localTwist \<leftarrow> col relativeJac jointIndex;
       Some (AdT M transform localTwist)
     }"

definition getContactWorldPosition :: "DifferentiableContactConstraint \<Rightarrow> Vector3d option" where
  "getContactWorldPosition c =
     (if \<not> isContactConstraint (mConstraint c) then Some Zero3
      else do { k \<leftarrow> mContact c; Some (point k) })"

definition getContactWorldNormal :: "DifferentiableContactConstraint \<Rightarrow> Vector3d option" where
  "getContactWorldNormal c =
     (if \<not> isContactConstraint (mConstraint c) then Some Zero3
      else do { k \<leftarrow> mContact c; Some (normal k) })"

definition getContactWorldForceDirection ::
  "DifferentiableContactConstraint \<Rightarrow> Vector3d option" where
  "getContactWorldForceDirection c =
     (if \<not> isContactConstraint (mConstraint c) then Some Zero3
      else if mIndex c = 0 then do { k \<leftarrow> mContact c; Some (normal k) }
      else do {
        cc \<leftarrow> mContactConstraint c;
        k \<leftarrow> mContact c;
        col (getTangentBasisMatrixODE cc (normal k)) (mIndex c - 1)
      })"

definition getWorldForce :: "DifferentiableContactConstraint \<Rightarrow> Vector6d option" where
  "getWorldForce c =
     do {
       position \<leftarrow> getContactWorldPosition c;
       direction \<leftarrow> getContactWorldForceDirection c;
       direction2 \<leftarrow> getContactWorldForceDirection c;
       Some (Vector6d (cross position direction) direction2)
     }"

section \<open>Generalised constraint forces\<close>

text \<open>
  The loop of \<^verbatim>\<open>getConstraintForces(skel)\<close> over the degrees of freedom of the
  skeleton, in index order.
\<close>

fun constraintForcesLoop ::
  "math \<Rightarrow> DifferentiableContactConstraint \<Rightarrow> Vector6d \<Rightarrow> DegreeOfFreedom list
   \<Rightarrow> real list option" where
  "constraintForcesLoop M c worldForce [] = Some []"
| "constraintForcesLoop M c worldForce (dof # dofs) =
     do {
       multiple \<leftarrow> getForceMultiple c dof;
       tau \<leftarrow> (if multiple = 0 then Some 0
                else do {
                  worldTwist \<leftarrow> getWorldScrewAxis M dof;
                  Some (dot worldTwist worldForce * multiple)
                });
       taus \<leftarrow> constraintForcesLoop M c worldForce dofs;
       Some (tau # taus)
     }"

definition getConstraintForces ::
  "math \<Rightarrow> DifferentiableContactConstraint \<Rightarrow> Skeleton \<Rightarrow> real list option" where
  "getConstraintForces M c skel =
     (if getName skel \<notin> set (mSkeletons c)
      then Some (replicate (length (getDofs skel)) 0)
      else do {
        worldForce \<leftarrow> getWorldForce c;
        constraintForcesLoop M c worldForce (getDofs skel)
      })"

definition getConstraintForce ::
  "math \<Rightarrow> DifferentiableContactConstraint \<Rightarrow> DegreeOfFreedom \<Rightarrow> real option" where
  "getConstraintForce M c dof =
     do {
       multiple \<leftarrow> getForceMultiple c dof;
       worldForce \<leftarrow> getWorldForce c;
       worldTwist \<leftarrow> getWorldScrewAxis M dof;
       Some (dot worldTwist worldForce * multiple)
     }"

section \<open>Gradients\<close>

text \<open>
  The three gradient functions compute the world twist of the degree of freedom inline,
  by the same expression as \<^verbatim>\<open>getWorldScrewAxis\<close>.
\<close>

definition inlineWorldTwist :: "math \<Rightarrow> DegreeOfFreedom \<Rightarrow> Vector6d option" where
  "inlineWorldTwist M dof =
     do {
       let jointIndex = int (getIndexInJoint dof);
       let childNode = getChildBodyNode dof;
       localTwist \<leftarrow> col (getRelativeJacobian (getJoint dof)) jointIndex;
       Some (AdT M (getWorldTransform childNode) localTwist)
     }"

definition getContactPositionGradient ::
  "math \<Rightarrow> DifferentiableContactConstraint \<Rightarrow> DegreeOfFreedom \<Rightarrow> Vector3d option" where
  "getContactPositionGradient M c dof =
     do {
       contactPos \<leftarrow> getContactWorldPosition c;
       ty \<leftarrow> getDofContactType c dof;
       if ty = FACE then Some Zero3
       else if ty = VERTEX \<or> ty = VERTEX_FACE_SELF_COLLISION
               \<or> ty = EDGE_EDGE_SELF_COLLISION \<or> ty = EDGE_A \<or> ty = EDGE_B
       then do {
         worldTwist \<leftarrow> inlineWorldTwist M dof;
         if ty = VERTEX \<or> ty = VERTEX_FACE_SELF_COLLISION \<or> ty = EDGE_EDGE_SELF_COLLISION
         then Some (gradientWrtTheta M worldTwist contactPos 0)
         else if ty = EDGE_A then do {
           k \<leftarrow> mContact c;
           let edgeAPosGradient = gradientWrtTheta M worldTwist (edgeAFixedPoint k) 0;
           let edgeADirGradient =
             gradientWrtThetaPureRotation M (head3 worldTwist) (edgeADir k) 0;
           Some (getContactPointGradient M
                   (edgeAFixedPoint k) edgeAPosGradient (edgeADir k) edgeADirGradient
                   (edgeBFixedPoint k) Zero3 (edgeBDir k) Zero3)
         }
         else if ty = EDGE_B then do {
           k \<leftarrow> mContact c;
           let edgeBPosGradient = gradientWrtTheta M worldTwist (edgeBFixedPoint k) 0;
           let edgeBDirGradient =
             gradientWrtThetaPureRotation M (head3 worldTwist) (edgeBDir k) 0;
           Some (getContactPointGradient M
                   (edgeAFixedPoint k) Zero3 (edgeADir k) Zero3
                   (edgeBFixedPoint k) edgeBPosGradient (edgeBDir k) edgeBDirGradient)
         }
         else None
       }
       else Some Zero3
     }"

definition getContactNormalGradient ::
  "math \<Rightarrow> DifferentiableContactConstraint \<Rightarrow> DegreeOfFreedom \<Rightarrow> Vector3d option" where
  "getContactNormalGradient M c dof =
     do {
       nrm \<leftarrow> getContactWorldNormal c;
       ty \<leftarrow> getDofContactType c dof;
       if ty = VERTEX then Some Zero3
       else if ty = FACE \<or> ty = VERTEX_FACE_SELF_COLLISION \<or> ty = EDGE_A
               \<or> ty = EDGE_B \<or> ty = EDGE_EDGE_SELF_COLLISION
       then do {
         worldTwist \<leftarrow> inlineWorldTwist M dof;
         if ty = FACE \<or> ty = VERTEX_FACE_SELF_COLLISION \<or> ty = EDGE_EDGE_SELF_COLLISION
         then Some (gradientWrtThetaPureRotation M (head3 worldTwist) nrm 0)
         else if ty = EDGE_A then do {
           k \<leftarrow> mContact c;
           let edgeADirGradient =
             gradientWrtThetaPureRotation M (head3 worldTwist) (edgeADir k) 0;
           Some (cross edgeADirGradient (edgeBDir k))
         }
         else if ty = EDGE_B then do {
           k \<leftarrow> mContact c;
           let edgeBDirGradient =
             gradientWrtThetaPureRotation M (head3 worldTwist) (edgeBDir k) 0;
           Some (cross (edgeADir k) edgeBDirGradient)
         }
         else None
       }
       else Some Zero3
     }"

definition getContactForceGradient ::
  "math \<Rightarrow> DifferentiableContactConstraint \<Rightarrow> DegreeOfFreedom \<Rightarrow> Vector3d option" where
  "getContactForceGradient M c dof =
     do {
       ty \<leftarrow> getDofContactType c dof;
       if ty = VERTEX then Some Zero3
       else if ty = FACE \<or> ty = VERTEX_FACE_SELF_COLLISION \<or> ty = EDGE_A
               \<or> ty = EDGE_B \<or> ty = EDGE_EDGE_SELF_COLLISION
       then do {
         contactNormal \<leftarrow> getContactWorldNormal c;
         normalGradient \<leftarrow> getContactNormalGradient M c dof;
         if mIndex c = 0 \<or> squaredNorm normalGradient \<le> 1 / 10 ^ 12
         then Some normalGradient
         else do {
           cc \<leftarrow> mContactConstraint c;
           col (getTangentBasisMatrixODEGradient cc contactNormal normalGradient)
               (mIndex c - 1)
         }
       }
       else Some Zero3
     }"

definition getContactWorldForceGradient ::
  "math \<Rightarrow> DifferentiableContactConstraint \<Rightarrow> DegreeOfFreedom \<Rightarrow> Vector6d option" where
  "getContactWorldForceGradient M c dof =
     do {
       position \<leftarrow> getContactWorldPosition c;
       force \<leftarrow> getContactWorldForceDirection c;
       forceGradient \<leftarrow> getContactForceGradient M c dof;
       positionGradient \<leftarrow> getContactPositionGradient M c dof;
       Some (Vector6d (plus3 (cross position forceGradient) (cross positionGradient force))
                      forceGradient)
     }"

definition getScrewAxisGradient ::
  "math \<Rightarrow> DegreeOfFreedom \<Rightarrow> DegreeOfFreedom \<Rightarrow> Vector6d option" where
  "getScrewAxisGradient M screwDof rotateDof =
     (if \<not> isParentDof rotateDof screwDof then Some Zero6
      else do {
        axisWorldTwist \<leftarrow> getWorldScrewAxis M screwDof;
        rotateWorldTwist \<leftarrow> getWorldScrewAxis M rotateDof;
        Some (ad M rotateWorldTwist axisWorldTwist)
      })"

definition getConstraintForceDerivative ::
  "math \<Rightarrow> DifferentiableContactConstraint \<Rightarrow> DegreeOfFreedom \<Rightarrow> DegreeOfFreedom
   \<Rightarrow> real option" where
  "getConstraintForceDerivative M c dof wrt =
     do {
       multiple \<leftarrow> getForceMultiple c dof;
       worldForce \<leftarrow> getWorldForce c;
       gradientOfWorldForce \<leftarrow> getContactWorldForceGradient M c wrt;
       gradientOfWorldTwist \<leftarrow> getScrewAxisGradient M dof wrt;
       worldTwist \<leftarrow> getWorldScrewAxis M dof;
       Some ((dot worldTwist gradientOfWorldForce + dot gradientOfWorldTwist worldForce)
             * multiple)
     }"

section \<open>The Dantzig boxed LCP solver\<close>

text \<open>
  The arrays that \<^verbatim>\<open>dSolveLCP\<close> reads and writes through its pointer arguments.
\<close>

record LcpArrays =
  lcpA :: "real list"
  lcpX :: "real list"
  lcpB :: "real list"
  lcpLo :: "real list"
  lcpHi :: "real list"
  lcpFindex :: "int list"

text \<open>
  What a call does: it returns a value, it throws an exception, or it never comes back.
  The arrays are those left behind at that moment.
\<close>

datatype ('e, 'a) outcome = Returned 'a LcpArrays | Thrown 'e LcpArrays | NoReturn

text \<open>
  \<^verbatim>\<open>dSolveLCP(n, A, x, b, w, nub, lo, hi, findex, earlyTermination)\<close> belongs to the
  external ODE solver and is a parameter; \<open>w\<close> is a nullable pointer.
\<close>

type_synonym 'e dSolveLCP =
  "int \<Rightarrow> LcpArrays \<Rightarrow> real list option \<Rightarrow> int \<Rightarrow> bool \<Rightarrow> ('e, bool) outcome"

definition solve ::
  "'e dSolveLCP \<Rightarrow> int \<Rightarrow> LcpArrays \<Rightarrow> int \<Rightarrow> bool \<Rightarrow> ('e, bool) outcome" where
  "solve dSolveLCP n arrays nub earlyTermination =
     (case dSolveLCP n arrays None 0 earlyTermination of
        Returned r arrays' \<Rightarrow> Returned r arrays'
      | Thrown e arrays' \<Rightarrow> Returned False arrays'
      | NoReturn \<Rightarrow> NoReturn)"

section \<open>The classification table of the specification\<close>

text \<open>
  The truth table of the specification, row by row and in its order: ancestor of A,
  ancestor of B, geometric type of the contact. This definition follows the words of
  the specification, not the code.
\<close>

fun specDofContactType :: "bool \<Rightarrow> bool \<Rightarrow> ContactType \<Rightarrow> DofContactType" where
  "specDofContactType False False t = NONE"
| "specDofContactType True True VERTEX_FACE = VERTEX_FACE_SELF_COLLISION"
| "specDofContactType True True FACE_VERTEX = VERTEX_FACE_SELF_COLLISION"
| "specDofContactType True True EDGE_EDGE = EDGE_EDGE_SELF_COLLISION"
| "specDofContactType True False VERTEX_FACE = VERTEX"
| "specDofContactType True False FACE_VERTEX = FACE"
| "specDofContactType True False EDGE_EDGE = EDGE_B"
| "specDofContactType False True VERTEX_FACE = FACE"
| "specDofContactType False True FACE_VERTEX = VERTEX"
| "specDofContactType False True EDGE_EDGE = EDGE_A"
| "specDofContactType a b UNSUPPORTED_CONTACT = UNSUPPORTED"

section \<open>Example data\<close>

text \<open>
  A two-link arm (shoulder joint, upper arm, elbow joint, forearm) and a separate ground
  skeleton with one joint and one body.
\<close>

definition identityTransform :: Isometry3d where
  "identityTransform =
     \<lparr> linear = (Vector3d 1 0 0, Vector3d 0 1 0, Vector3d 0 0 1),
       translation = Vector3d 0 0 0 \<rparr>"

definition zAxisTwist :: Vector6d where
  "zAxisTwist = Vector6d (Vector3d 0 0 1) (Vector3d 0 0 0)"

definition yAxisTwist :: Vector6d where
  "yAxisTwist = Vector6d (Vector3d 0 1 0) (Vector3d 0 0 0)"

definition shoulderJoint :: Joint where
  "shoulderJoint = Joint 0 ''arm'' 0 (\<lambda>k. k) [zAxisTwist] None"

definition upperArm :: BodyNode where
  "upperArm = BodyNode identityTransform (Some shoulderJoint)"

definition elbowJoint :: Joint where
  "elbowJoint = Joint 1 ''arm'' 0 (\<lambda>k. 1 + k) [yAxisTwist] (Some upperArm)"

definition foreArm :: BodyNode where
  "foreArm = BodyNode identityTransform (Some elbowJoint)"

definition groundJoint :: Joint where
  "groundJoint = Joint 2 ''ground'' 0 (\<lambda>k. k) [zAxisTwist] None"

definition groundBody :: BodyNode where
  "groundBody = BodyNode identityTransform (Some groundJoint)"

definition shoulderDof :: DegreeOfFreedom where
  "shoulderDof = \<lparr> getJoint = shoulderJoint, getIndexInJoint = 0, getChildBodyNode = upperArm \<rparr>"

definition elbowDof :: DegreeOfFreedom where
  "elbowDof = \<lparr> getJoint = elbowJoint, getIndexInJoint = 0, getChildBodyNode = foreArm \<rparr>"

definition groundDof :: DegreeOfFreedom where
  "groundDof = \<lparr> getJoint = groundJoint, getIndexInJoint = 0, getChildBodyNode = groundBody \<rparr>"

text \<open>
  Sample functions standing for the math library and for the tangent basis of a contact
  constraint, used to run the model on concrete inputs: the adjoint action of a
  transform on a twist, the bracket of two twists, and the velocity of a point under
  a twist.
\<close>

fun sampleRotate :: "Vector3d \<times> Vector3d \<times> Vector3d \<Rightarrow> Vector3d \<Rightarrow> Vector3d" where
  "sampleRotate (r1, r2, r3) v = Vector3d (dot3 r1 v) (dot3 r2 v) (dot3 r3 v)"

fun sampleAdT :: "Isometry3d \<Rightarrow> Vector6d \<Rightarrow> Vector6d" where
  "sampleAdT T (Vector6d w v) =
     Vector6d (sampleRotate (linear T) w)
              (plus3 (sampleRotate (linear T) v)
                     (cross (translation T) (sampleRotate (linear T) w)))"

fun sampleAd :: "Vector6d \<Rightarrow> Vector6d \<Rightarrow> Vector6d" where
  "sampleAd (Vector6d w1 v1) (Vector6d w2 v2) =
     Vector6d (cross w1 w2) (plus3 (cross w1 v2) (cross v1 w2))"

fun sampleGradientWrtTheta :: "Vector6d \<Rightarrow> Vector3d \<Rightarrow> real \<Rightarrow> Vector3d" where
  "sampleGradientWrtTheta (Vector6d w v) p theta = plus3 (cross w p) v"

definition sampleMath :: math where
  "sampleMath =
     \<lparr> AdT = sampleAdT,
       ad = sampleAd,
       gradientWrtTheta = sampleGradientWrtTheta,
       gradientWrtThetaPureRotation = (\<lambda>w p theta. cross w p),
       getContactPointGradient = (\<lambda>pA dpA uA duA pB dpB uB duB. plus3 dpA dpB) \<rparr>"

definition sampleTangentBasis :: "Vector3d \<Rightarrow> Vector3d list" where
  "sampleTangentBasis n =
     [cross n (Vector3d 0 0 1), cross n (cross n (Vector3d 0 0 1))]"

definition sampleTangentBasisGradient :: "Vector3d \<Rightarrow> Vector3d \<Rightarrow> Vector3d list" where
  "sampleTangentBasisGradient n g =
     [cross g (Vector3d 0 0 1),
      plus3 (cross g (cross n (Vector3d 0 0 1))) (cross n (cross g (Vector3d 0 0 1)))]"

definition sampleContact :: "ContactType \<Rightarrow> Vector3d \<Rightarrow> Contact" where
  "sampleContact ty n =
     \<lparr> point = Vector3d 1 2 3, normal = n, type = ty,
       edgeAFixedPoint = Vector3d 1 2 0, edgeADir = Vector3d 1 0 0,
       edgeBFixedPoint = Vector3d 1 2 0, edgeBDir = Vector3d 0 0 1 \<rparr>"

definition sampleConstraint ::
  "ContactType \<Rightarrow> Vector3d \<Rightarrow> BodyNode \<Rightarrow> BodyNode \<Rightarrow> int \<Rightarrow> DifferentiableContactConstraint" where
  "sampleConstraint ty n bodyA bodyB idx =
     \<lparr> mConstraint = IsContactConstraint
         \<lparr> getContact = sampleContact ty n, getBodyNodeA = bodyA, getBodyNodeB = bodyB,
           getTangentBasisMatrixODE = sampleTangentBasis,
           getTangentBasisMatrixODEGradient = sampleTangentBasisGradient \<rparr>,
       mIndex = idx, mSkeletons = [''arm'', ''ground''] \<rparr>"

definition sampleOtherConstraint :: DifferentiableContactConstraint where
  "sampleOtherConstraint =
     \<lparr> mConstraint = OtherConstraint, mIndex = 0, mSkeletons = [''arm''] \<rparr>"

definition armSkeleton :: Skeleton where
  "armSkeleton = \<lparr> getName = ''arm'', getDofs = [shoulderDof, elbowDof] \<rparr>"

definition groundSkeleton :: Skeleton where
  "groundSkeleton = \<lparr> getName = ''ground'', getDofs = [groundDof] \<rparr>"

text \<open>
  A unit normal that is almost parallel to the axis of the example joints: its angle to
  the \<open>z\<close> axis is about \<open>5 \<cdot> 10\<^sup>-\<^sup>7\<close> radians.
\<close>

definition tiltedNormal :: Vector3d where
  "tiltedNormal = Vector3d (8000000 / 16000000000001) 0 (15999999999999 / 16000000000001)"

text \<open>
  A sample \<^verbatim>\<open>dSolveLCP\<close>: it throws on an empty problem and otherwise solves the
  one-dimensional problem \<open>2 x = 6\<close> of the sample arrays.
\<close>

definition sampleArrays :: LcpArrays where
  "sampleArrays =
     \<lparr> lcpA = [2], lcpX = [0], lcpB = [6], lcpLo = [- 10], lcpHi = [10], lcpFindex = [- 1] \<rparr>"

definition sampleSolveLCP :: "string dSolveLCP" where
  "sampleSolveLCP n arrays w nub earlyTermination =
     (if n \<le> 0 then Thrown ''empty problem'' arrays
      else Returned True (arrays \<lparr> lcpX := [3] \<rparr>))"

section \<open>Evaluating the example\<close>

lemmas example_defs =
  identityTransform_def zAxisTwist_def yAxisTwist_def shoulderJoint_def upperArm_def elbowJoint_def
  foreArm_def groundJoint_def groundBody_def shoulderDof_def elbowDof_def groundDof_def

lemma isParent_examples:
  "isParent shoulderDof upperArm = Some True"
  "isParent shoulderDof foreArm = Some True"
  "isParent shoulderDof groundBody = Some False"
  "isParent elbowDof upperArm = Some False"
  "isParent elbowDof foreArm = Some True"
  "isParent elbowDof groundBody = Some False"
  "isParent groundDof upperArm = Some False"
  "isParent groundDof foreArm = Some False"
  "isParent groundDof groundBody = Some True"
  by (simp_all add: isParent_def example_defs)

lemma sample_parentJoints:
  "getParentJoint upperArm = Some shoulderJoint"
  "getParentJoint foreArm = Some elbowJoint"
  "getParentJoint groundBody = Some groundJoint"
  by (simp_all add: upperArm_def foreArm_def groundBody_def)

lemma sampleConstraint_sel:
  "mConstraint (sampleConstraint ty n bodyA bodyB idx) =
     IsContactConstraint
       \<lparr> getContact = sampleContact ty n, getBodyNodeA = bodyA, getBodyNodeB = bodyB,
         getTangentBasisMatrixODE = sampleTangentBasis,
         getTangentBasisMatrixODEGradient = sampleTangentBasisGradient \<rparr>"
  "mIndex (sampleConstraint ty n bodyA bodyB idx) = idx"
  "mSkeletons (sampleConstraint ty n bodyA bodyB idx) = [''arm'', ''ground'']"
  by (simp_all add: sampleConstraint_def)

lemma sampleContact_sel:
  "point (sampleContact ty n) = Vector3d 1 2 3"
  "normal (sampleContact ty n) = n"
  "type (sampleContact ty n) = ty"
  "edgeAFixedPoint (sampleContact ty n) = Vector3d 1 2 0"
  "edgeADir (sampleContact ty n) = Vector3d 1 0 0"
  "edgeBFixedPoint (sampleContact ty n) = Vector3d 1 2 0"
  "edgeBDir (sampleContact ty n) = Vector3d 0 0 1"
  by (simp_all add: sampleContact_def)

section \<open>Classification\<close>

lemma getContactType_contact:
  "mConstraint c = IsContactConstraint cc \<Longrightarrow> getContactType c = type (getContact cc)"
  by (simp add: getContactType_def)

lemma isParent_returns:
  "getParentJoint node \<noteq> None \<Longrightarrow> \<exists>a. isParent dof node = Some a"
  by (auto simp add: isParent_def Let_def)

lemma getDofContactType_some:
  assumes "mConstraint c = IsContactConstraint cc"
      and "isParent dof (getBodyNodeA cc) = Some a"
      and "isParent dof (getBodyNodeB cc) = Some b"
  shows "getDofContactType c dof = Some (specDofContactType a b (type (getContact cc)))"
  using assms
  by (cases a; cases b; cases "type (getContact cc)")
     (simp_all add: getDofContactType_def getContactType_def)

text \<open>
  C1. For a contact whose geometric type is VERTEX_FACE, FACE_VERTEX or EDGE_EDGE,
  \<^verbatim>\<open>getDofContactType\<close> returns the entry of the specification's truth table
  \<open>specDofContactType\<close> for the results of the two ancestor tests and the geometric type:
  NONE for an ancestor of neither body, the self-collision types for an ancestor of both,
  VERTEX, FACE, EDGE_B for an ancestor of A only and FACE, VERTEX, EDGE_A for an ancestor
  of B only. Both bodies have a parent joint, as every body node of a skeleton does.
\<close>

theorem getDofContactType_truth_table:
  assumes "mConstraint c = IsContactConstraint cc"
      and "getParentJoint (getBodyNodeA cc) \<noteq> None"
      and "getParentJoint (getBodyNodeB cc) \<noteq> None"
      and "type (getContact cc) = VERTEX_FACE \<or> type (getContact cc) = FACE_VERTEX
           \<or> type (getContact cc) = EDGE_EDGE"
  shows "\<exists>a b. isParent dof (getBodyNodeA cc) = Some a
    \<and> isParent dof (getBodyNodeB cc) = Some b
    \<and> getDofContactType c dof = Some (specDofContactType a b (type (getContact cc)))"
proof -
  from isParent_returns [OF assms(2)] obtain a where
    a: "isParent dof (getBodyNodeA cc) = Some a" by blast
  from isParent_returns [OF assms(3)] obtain b where
    b: "isParent dof (getBodyNodeB cc) = Some b" by blast
  have R: "isParent dof (getBodyNodeA cc) = Some a
    \<and> isParent dof (getBodyNodeB cc) = Some b
    \<and> getDofContactType c dof = Some (specDofContactType a b (type (getContact cc)))"
    using a b getDofContactType_some [OF assms(1) a b] by simp
  show ?thesis
    by (rule exI [of _ a], rule exI [of _ b], rule R)
qed

text \<open>
  Both orientations of an edge-edge contact between the forearm (A) and the ground (B):
  the shoulder, an ancestor of A only, gets EDGE_B; the ground joint, an ancestor of B
  only, gets EDGE_A.
\<close>

theorem getDofContactType_truth_table_witness:
  "getDofContactType (sampleConstraint EDGE_EDGE (Vector3d 0 1 0) foreArm groundBody 0) shoulderDof
     = Some EDGE_B
   \<and> getDofContactType (sampleConstraint EDGE_EDGE (Vector3d 0 1 0) foreArm groundBody 0) groundDof
     = Some EDGE_A"
proof -
  have 1: "getDofContactType (sampleConstraint EDGE_EDGE (Vector3d 0 1 0) foreArm groundBody 0)
             shoulderDof = Some EDGE_B"
    using getDofContactType_truth_table
            [OF sampleConstraint_sel(1), of EDGE_EDGE "Vector3d 0 1 0" foreArm groundBody
                shoulderDof 0]
    by (auto simp add: isParent_examples sampleContact_sel sample_parentJoints)
  have 2: "getDofContactType (sampleConstraint EDGE_EDGE (Vector3d 0 1 0) foreArm groundBody 0)
             groundDof = Some EDGE_A"
    using getDofContactType_truth_table
            [OF sampleConstraint_sel(1), of EDGE_EDGE "Vector3d 0 1 0" foreArm groundBody
                groundDof 0]
    by (auto simp add: isParent_examples sampleContact_sel sample_parentJoints)
  from 1 2 show ?thesis by simp
qed

section \<open>Unsupported contacts\<close>

text \<open>
  C8, as stated, fails: for a contact of unsupported geometric type and a degree of
  freedom that is an ancestor of neither body, \<^verbatim>\<open>getDofContactType\<close> returns NONE,
  not UNSUPPORTED. Here the contact is between the forearm and the upper arm and the
  degree of freedom is the joint of the ground skeleton.
\<close>

theorem getDofContactType_unsupported_counterexample:
  "getContactType (sampleConstraint UNSUPPORTED_CONTACT (Vector3d 0 1 0) foreArm upperArm 0)
     = UNSUPPORTED_CONTACT
   \<and> getDofContactType (sampleConstraint UNSUPPORTED_CONTACT (Vector3d 0 1 0) foreArm upperArm 0)
        groundDof = Some NONE
   \<and> getDofContactType (sampleConstraint UNSUPPORTED_CONTACT (Vector3d 0 1 0) foreArm upperArm 0)
        groundDof \<noteq> Some UNSUPPORTED"
  by (simp add: getDofContactType_def getContactType_def sampleConstraint_sel
        sampleContact_sel isParent_examples)

text \<open>
  C8, amended. For a contact of unsupported geometric type, \<^verbatim>\<open>getDofContactType\<close>
  returns UNSUPPORTED when the degree of freedom is an ancestor of body A, of body B or
  of both, and NONE when it is an ancestor of neither.
\<close>

theorem getDofContactType_unsupported:
  assumes "mConstraint c = IsContactConstraint cc"
      and "getParentJoint (getBodyNodeA cc) \<noteq> None"
      and "getParentJoint (getBodyNodeB cc) \<noteq> None"
      and "type (getContact cc) = UNSUPPORTED_CONTACT"
  shows "\<exists>a b. isParent dof (getBodyNodeA cc) = Some a
    \<and> isParent dof (getBodyNodeB cc) = Some b
    \<and> getDofContactType c dof = Some (if a \<or> b then UNSUPPORTED else NONE)"
proof -
  from isParent_returns [OF assms(2)] obtain a where
    a: "isParent dof (getBodyNodeA cc) = Some a" by blast
  from isParent_returns [OF assms(3)] obtain b where
    b: "isParent dof (getBodyNodeB cc) = Some b" by blast
  have "getDofContactType c dof = Some (if a \<or> b then UNSUPPORTED else NONE)"
    using assms(1,4) a b
    by (cases a; cases b) (simp_all add: getDofContactType_def getContactType_def)
  with a b have R: "isParent dof (getBodyNodeA cc) = Some a
    \<and> isParent dof (getBodyNodeB cc) = Some b
    \<and> getDofContactType c dof = Some (if a \<or> b then UNSUPPORTED else NONE)"
    by simp
  show ?thesis
    by (rule exI [of _ a], rule exI [of _ b], rule R)
qed

theorem getDofContactType_unsupported_witness:
  "getDofContactType (sampleConstraint UNSUPPORTED_CONTACT (Vector3d 0 1 0) foreArm groundBody 0)
     shoulderDof = Some UNSUPPORTED
   \<and> getDofContactType (sampleConstraint UNSUPPORTED_CONTACT (Vector3d 0 1 0) foreArm upperArm 0)
     shoulderDof = Some UNSUPPORTED
   \<and> getDofContactType (sampleConstraint UNSUPPORTED_CONTACT (Vector3d 0 1 0) foreArm upperArm 0)
     groundDof = Some NONE"
proof -
  have 1: "getDofContactType
             (sampleConstraint UNSUPPORTED_CONTACT (Vector3d 0 1 0) foreArm groundBody 0)
             shoulderDof = Some UNSUPPORTED"
    using getDofContactType_unsupported
            [OF sampleConstraint_sel(1), of UNSUPPORTED_CONTACT "Vector3d 0 1 0"
                foreArm groundBody shoulderDof 0]
    by (auto simp add: isParent_examples sampleContact_sel sample_parentJoints)
  have 2: "getDofContactType
             (sampleConstraint UNSUPPORTED_CONTACT (Vector3d 0 1 0) foreArm upperArm 0)
             shoulderDof = Some UNSUPPORTED"
    using getDofContactType_unsupported
            [OF sampleConstraint_sel(1), of UNSUPPORTED_CONTACT "Vector3d 0 1 0"
                foreArm upperArm shoulderDof 0]
    by (auto simp add: isParent_examples sampleContact_sel sample_parentJoints)
  have 3: "getDofContactType
             (sampleConstraint UNSUPPORTED_CONTACT (Vector3d 0 1 0) foreArm upperArm 0)
             groundDof = Some NONE"
    using getDofContactType_unsupported
            [OF sampleConstraint_sel(1), of UNSUPPORTED_CONTACT "Vector3d 0 1 0"
                foreArm upperArm groundDof 0]
    by (auto simp add: isParent_examples sampleContact_sel sample_parentJoints)
  from 1 2 3 show ?thesis by simp
qed

section \<open>The force multiple\<close>

text \<open>
  C7. For a contact constraint, \<^verbatim>\<open>getForceMultiple\<close> is nonzero exactly when the degree
  of freedom is an ancestor of exactly one of the bodies A and B; it is 1 for an ancestor
  of A only, -1 for an ancestor of B only, and 0 for an ancestor of both or of neither.
\<close>

theorem getForceMultiple_xor:
  assumes "mConstraint c = IsContactConstraint cc"
      and "getParentJoint (getBodyNodeA cc) \<noteq> None"
      and "getParentJoint (getBodyNodeB cc) \<noteq> None"
  shows "\<exists>a b m. isParent dof (getBodyNodeA cc) = Some a
           \<and> isParent dof (getBodyNodeB cc) = Some b
           \<and> getForceMultiple c dof = Some m
           \<and> (m \<noteq> 0 \<longleftrightarrow> a \<noteq> b)
           \<and> (a \<and> \<not> b \<longrightarrow> m = 1)
           \<and> (\<not> a \<and> b \<longrightarrow> m = - 1)
           \<and> (a \<and> b \<longrightarrow> m = 0)
           \<and> (\<not> a \<and> \<not> b \<longrightarrow> m = 0)"
proof -
  from isParent_returns [OF assms(2)] obtain a where
    a: "isParent dof (getBodyNodeA cc) = Some a" by blast
  from isParent_returns [OF assms(3)] obtain b where
    b: "isParent dof (getBodyNodeB cc) = Some b" by blast
  have R: "\<exists>m. isParent dof (getBodyNodeA cc) = Some a
           \<and> isParent dof (getBodyNodeB cc) = Some b
           \<and> getForceMultiple c dof = Some m
           \<and> (m \<noteq> 0 \<longleftrightarrow> a \<noteq> b)
           \<and> (a \<and> \<not> b \<longrightarrow> m = 1)
           \<and> (\<not> a \<and> b \<longrightarrow> m = - 1)
           \<and> (a \<and> b \<longrightarrow> m = 0)
           \<and> (\<not> a \<and> \<not> b \<longrightarrow> m = 0)"
    using assms(1) a b
    by (cases a; cases b) (simp_all add: getForceMultiple_def)
  show ?thesis
    by (rule exI [of _ a], rule exI [of _ b], rule R)
qed

theorem getForceMultiple_xor_witness:
  "getForceMultiple (sampleConstraint VERTEX_FACE (Vector3d 0 1 0) foreArm groundBody 0) shoulderDof
     = Some 1
   \<and> getForceMultiple (sampleConstraint VERTEX_FACE (Vector3d 0 1 0) foreArm groundBody 0) groundDof
     = Some (- 1)
   \<and> getForceMultiple (sampleConstraint VERTEX_FACE (Vector3d 0 1 0) foreArm upperArm 0) shoulderDof
     = Some 0
   \<and> getForceMultiple (sampleConstraint VERTEX_FACE (Vector3d 0 1 0) foreArm upperArm 0) groundDof
     = Some 0"
proof -
  have 1: "getForceMultiple (sampleConstraint VERTEX_FACE (Vector3d 0 1 0) foreArm groundBody 0)
             shoulderDof = Some 1"
    using getForceMultiple_xor
            [OF sampleConstraint_sel(1), of VERTEX_FACE "Vector3d 0 1 0" foreArm groundBody
                shoulderDof 0]
    by (auto simp add: isParent_examples sample_parentJoints)
  have 2: "getForceMultiple (sampleConstraint VERTEX_FACE (Vector3d 0 1 0) foreArm groundBody 0)
             groundDof = Some (- 1)"
    using getForceMultiple_xor
            [OF sampleConstraint_sel(1), of VERTEX_FACE "Vector3d 0 1 0" foreArm groundBody
                groundDof 0]
    by (auto simp add: isParent_examples sample_parentJoints)
  have 3: "getForceMultiple (sampleConstraint VERTEX_FACE (Vector3d 0 1 0) foreArm upperArm 0)
             shoulderDof = Some 0"
    using getForceMultiple_xor
            [OF sampleConstraint_sel(1), of VERTEX_FACE "Vector3d 0 1 0" foreArm upperArm
                shoulderDof 0]
    by (auto simp add: isParent_examples sample_parentJoints)
  have 4: "getForceMultiple (sampleConstraint VERTEX_FACE (Vector3d 0 1 0) foreArm upperArm 0)
             groundDof = Some 0"
    using getForceMultiple_xor
            [OF sampleConstraint_sel(1), of VERTEX_FACE "Vector3d 0 1 0" foreArm upperArm
                groundDof 0]
    by (auto simp add: isParent_examples sample_parentJoints)
  from 1 2 3 4 show ?thesis by simp
qed

section \<open>Gradients of position, normal and force direction\<close>

lemma inlineWorldTwist_eq: "inlineWorldTwist M dof = getWorldScrewAxis M dof"
  by (simp add: inlineWorldTwist_def getWorldScrewAxis_def)

lemma contact_queries:
  assumes "mConstraint c = IsContactConstraint cc"
  shows "getContactWorldPosition c = Some (point (getContact cc))"
    and "getContactWorldNormal c = Some (normal (getContact cc))"
    and "mContact c = Some (getContact cc)"
    and "mContactConstraint c = Some cc"
  using assms by (simp_all add: getContactWorldPosition_def getContactWorldNormal_def)

text \<open>
  C2. The gradient of the contact position is zero for FACE, NONE and UNSUPPORTED; it is
  \<^verbatim>\<open>gradientWrtTheta\<close> of the world screw axis at the contact point for VERTEX and the
  two self-collision types; for EDGE_A (EDGE_B) it is \<^verbatim>\<open>getContactPointGradient\<close>
  applied to the gradients of the fixed point and direction of edge A (edge B), with zero
  gradients for the other edge.
\<close>

theorem getContactPositionGradient_by_type:
  assumes "mConstraint c = IsContactConstraint cc"
      and "getDofContactType c dof = Some ty"
  shows "(ty = FACE \<or> ty = NONE \<or> ty = UNSUPPORTED
            \<longrightarrow> getContactPositionGradient M c dof = Some Zero3)
    \<and> (\<forall>ws. getWorldScrewAxis M dof = Some ws \<longrightarrow>
          (ty = VERTEX \<or> ty = VERTEX_FACE_SELF_COLLISION \<or> ty = EDGE_EDGE_SELF_COLLISION
             \<longrightarrow> getContactPositionGradient M c dof
                   = Some (gradientWrtTheta M ws (point (getContact cc)) 0))
        \<and> (ty = EDGE_A
             \<longrightarrow> getContactPositionGradient M c dof
                   = Some (getContactPointGradient M
                       (edgeAFixedPoint (getContact cc))
                       (gradientWrtTheta M ws (edgeAFixedPoint (getContact cc)) 0)
                       (edgeADir (getContact cc))
                       (gradientWrtThetaPureRotation M (head3 ws) (edgeADir (getContact cc)) 0)
                       (edgeBFixedPoint (getContact cc)) Zero3
                       (edgeBDir (getContact cc)) Zero3))
        \<and> (ty = EDGE_B
             \<longrightarrow> getContactPositionGradient M c dof
                   = Some (getContactPointGradient M
                       (edgeAFixedPoint (getContact cc)) Zero3
                       (edgeADir (getContact cc)) Zero3
                       (edgeBFixedPoint (getContact cc))
                       (gradientWrtTheta M ws (edgeBFixedPoint (getContact cc)) 0)
                       (edgeBDir (getContact cc))
                       (gradientWrtThetaPureRotation M (head3 ws) (edgeBDir (getContact cc)) 0))))"
  using assms(2) contact_queries [OF assms(1)]
  by (cases ty) (simp_all add: getContactPositionGradient_def inlineWorldTwist_eq)

theorem getContactPositionGradient_by_type_witness:
  "getContactPositionGradient sampleMath
     (sampleConstraint VERTEX_FACE (Vector3d 0 1 0) foreArm groundBody 0) shoulderDof
     = Some (Vector3d (- 2) 1 0)
   \<and> getContactPositionGradient sampleMath
     (sampleConstraint FACE_VERTEX (Vector3d 0 1 0) foreArm groundBody 0) shoulderDof
     = Some Zero3"
proof -
  have ws: "getWorldScrewAxis sampleMath shoulderDof = Some zAxisTwist"
    by (simp add: getWorldScrewAxis_def col_def sampleMath_def example_defs)
  have t1: "getDofContactType (sampleConstraint VERTEX_FACE (Vector3d 0 1 0) foreArm groundBody 0)
              shoulderDof = Some VERTEX"
    by (simp add: getDofContactType_def getContactType_def sampleConstraint_sel
          sampleContact_sel isParent_examples)
  have t2: "getDofContactType (sampleConstraint FACE_VERTEX (Vector3d 0 1 0) foreArm groundBody 0)
              shoulderDof = Some FACE"
    by (simp add: getDofContactType_def getContactType_def sampleConstraint_sel
          sampleContact_sel isParent_examples)
  show ?thesis
    using getContactPositionGradient_by_type [OF sampleConstraint_sel(1) t1, of sampleMath]
          getContactPositionGradient_by_type [OF sampleConstraint_sel(1) t2, of sampleMath]
          ws
    by (simp add: sampleContact_sel sampleMath_def zAxisTwist_def)
qed

text \<open>
  C3. The gradient of the contact normal is zero for VERTEX, NONE and UNSUPPORTED; it is
  \<^verbatim>\<open>gradientWrtThetaPureRotation\<close> of the angular part of the world screw axis and the
  normal for FACE and the two self-collision types; for EDGE_A it is the pure-rotation
  gradient of the direction of edge A, crossed with the direction of edge B; for EDGE_B
  it is the direction of edge A crossed with the pure-rotation gradient of the direction
  of edge B.
\<close>

theorem getContactNormalGradient_by_type:
  assumes "mConstraint c = IsContactConstraint cc"
      and "getDofContactType c dof = Some ty"
  shows "(ty = VERTEX \<or> ty = NONE \<or> ty = UNSUPPORTED
            \<longrightarrow> getContactNormalGradient M c dof = Some Zero3)
    \<and> (\<forall>ws. getWorldScrewAxis M dof = Some ws \<longrightarrow>
          (ty = FACE \<or> ty = VERTEX_FACE_SELF_COLLISION \<or> ty = EDGE_EDGE_SELF_COLLISION
             \<longrightarrow> getContactNormalGradient M c dof
                   = Some (gradientWrtThetaPureRotation M (head3 ws) (normal (getContact cc)) 0))
        \<and> (ty = EDGE_A
             \<longrightarrow> getContactNormalGradient M c dof
                   = Some (cross
                       (gradientWrtThetaPureRotation M (head3 ws) (edgeADir (getContact cc)) 0)
                       (edgeBDir (getContact cc))))
        \<and> (ty = EDGE_B
             \<longrightarrow> getContactNormalGradient M c dof
                   = Some (cross
                       (edgeADir (getContact cc))
                       (gradientWrtThetaPureRotation M (head3 ws) (edgeBDir (getContact cc)) 0))))"
  using assms(2) contact_queries [OF assms(1)]
  by (cases ty) (simp_all add: getContactNormalGradient_def inlineWorldTwist_eq)

text \<open>
  The edge-edge contact of the example, edge A along \<open>x\<close> and edge B along \<open>z\<close>, both
  joints turning about \<open>z\<close>: the ground joint moves edge A, the shoulder moves edge B.
\<close>

theorem getContactNormalGradient_by_type_witness:
  "getContactNormalGradient sampleMath
     (sampleConstraint EDGE_EDGE (Vector3d 0 1 0) foreArm groundBody 0) groundDof
     = Some (Vector3d 1 0 0)
   \<and> getContactNormalGradient sampleMath
     (sampleConstraint EDGE_EDGE (Vector3d 0 1 0) foreArm groundBody 0) shoulderDof
     = Some (Vector3d 0 0 0)
   \<and> getContactNormalGradient sampleMath
     (sampleConstraint VERTEX_FACE (Vector3d 0 1 0) foreArm groundBody 0) shoulderDof
     = Some Zero3"
proof -
  have ws: "getWorldScrewAxis sampleMath shoulderDof = Some zAxisTwist"
           "getWorldScrewAxis sampleMath groundDof = Some zAxisTwist"
    by (simp_all add: getWorldScrewAxis_def col_def sampleMath_def example_defs)
  have t1: "getDofContactType (sampleConstraint EDGE_EDGE (Vector3d 0 1 0) foreArm groundBody 0)
              groundDof = Some EDGE_A"
    by (simp add: getDofContactType_def getContactType_def sampleConstraint_sel
          sampleContact_sel isParent_examples)
  have t2: "getDofContactType (sampleConstraint EDGE_EDGE (Vector3d 0 1 0) foreArm groundBody 0)
              shoulderDof = Some EDGE_B"
    by (simp add: getDofContactType_def getContactType_def sampleConstraint_sel
          sampleContact_sel isParent_examples)
  have t3: "getDofContactType (sampleConstraint VERTEX_FACE (Vector3d 0 1 0) foreArm groundBody 0)
              shoulderDof = Some VERTEX"
    by (simp add: getDofContactType_def getContactType_def sampleConstraint_sel
          sampleContact_sel isParent_examples)
  show ?thesis
    using getContactNormalGradient_by_type [OF sampleConstraint_sel(1) t1, of sampleMath]
          getContactNormalGradient_by_type [OF sampleConstraint_sel(1) t2, of sampleMath]
          getContactNormalGradient_by_type [OF sampleConstraint_sel(1) t3, of sampleMath]
          ws
    by (simp add: sampleContact_sel sampleMath_def zAxisTwist_def)
qed

section \<open>Gradient of the force direction\<close>

lemma getContactForceGradient_supported:
  assumes "mConstraint c = IsContactConstraint cc"
      and "getDofContactType c dof = Some ty"
      and "ty \<noteq> VERTEX" and "ty \<noteq> NONE" and "ty \<noteq> UNSUPPORTED"
      and "getContactNormalGradient M c dof = Some g"
  shows "getContactForceGradient M c dof =
           (if mIndex c = 0 \<or> squaredNorm g \<le> 1 / 10 ^ 12 then Some g
            else col (getTangentBasisMatrixODEGradient cc (normal (getContact cc)) g)
                     (mIndex c - 1))"
  using assms(2-6) contact_queries [OF assms(1)]
  by (cases ty) (simp_all add: getContactForceGradient_def)

lemma sample_worldScrewAxis:
  "getWorldScrewAxis sampleMath shoulderDof = Some zAxisTwist"
  "getWorldScrewAxis sampleMath elbowDof = Some yAxisTwist"
  "getWorldScrewAxis sampleMath groundDof = Some zAxisTwist"
  by (simp_all add: getWorldScrewAxis_def col_def sampleMath_def example_defs)

lemma sample_FACE:
  "getDofContactType (sampleConstraint FACE_VERTEX n foreArm groundBody idx) shoulderDof
     = Some FACE"
  by (simp add: getDofContactType_def getContactType_def sampleConstraint_sel
        sampleContact_sel isParent_examples)

lemma sample_FACE_normalGradient:
  "getContactNormalGradient sampleMath
     (sampleConstraint FACE_VERTEX n foreArm groundBody idx) shoulderDof
     = Some (cross (Vector3d 0 0 1) n)"
  by (simp add: getContactNormalGradient_def sample_FACE getContactWorldNormal_def
        sampleConstraint_sel sampleContact_sel inlineWorldTwist_eq sample_worldScrewAxis)
     (simp add: sampleMath_def zAxisTwist_def)

text \<open>
  C4, as stated, fails: a normal gradient whose squared norm is below \<open>10\<^sup>-\<^sup>1\<^sup>2\<close> is
  returned as it is, not replaced by zero. The contact is a face-vertex contact between
  the forearm and the ground with the tilted unit normal, the row is the first tangent
  row (index 1), and the degree of freedom is the shoulder, of type FACE: the normal
  gradient is \<open>(0, 8000000 / 16000000000001, 0)\<close>, and so is the force gradient.
\<close>

theorem getContactForceGradient_small_counterexample:
  "getDofContactType (sampleConstraint FACE_VERTEX tiltedNormal foreArm groundBody 1) shoulderDof
     = Some FACE
   \<and> mIndex (sampleConstraint FACE_VERTEX tiltedNormal foreArm groundBody 1) = 1
   \<and> getContactNormalGradient sampleMath
        (sampleConstraint FACE_VERTEX tiltedNormal foreArm groundBody 1) shoulderDof
       = Some (Vector3d 0 (8000000 / 16000000000001) 0)
   \<and> squaredNorm (Vector3d 0 (8000000 / 16000000000001) 0) < 1 / 10 ^ 12
   \<and> getContactForceGradient sampleMath
        (sampleConstraint FACE_VERTEX tiltedNormal foreArm groundBody 1) shoulderDof
       = Some (Vector3d 0 (8000000 / 16000000000001) 0)
   \<and> getContactForceGradient sampleMath
        (sampleConstraint FACE_VERTEX tiltedNormal foreArm groundBody 1) shoulderDof
       \<noteq> Some Zero3"
proof -
  have g: "getContactNormalGradient sampleMath
             (sampleConstraint FACE_VERTEX tiltedNormal foreArm groundBody 1) shoulderDof
           = Some (Vector3d 0 (8000000 / 16000000000001) 0)"
    by (simp add: sample_FACE_normalGradient tiltedNormal_def)
  have small: "squaredNorm (Vector3d 0 (8000000 / 16000000000001) 0) < 1 / 10 ^ 12"
    by (simp add: squaredNorm_def)
  have f: "getContactForceGradient sampleMath
             (sampleConstraint FACE_VERTEX tiltedNormal foreArm groundBody 1) shoulderDof
           = Some (Vector3d 0 (8000000 / 16000000000001) 0)"
    using small
    by (simp add: getContactForceGradient_supported
          [OF sampleConstraint_sel(1) sample_FACE _ _ _ g] sampleConstraint_sel)
  show ?thesis
    using g small f by (simp add: sample_FACE sampleConstraint_sel Zero3_def)
qed

text \<open>
  C4, amended. For a degree of freedom whose type is not VERTEX, NONE or UNSUPPORTED:
  if the basis index is 0, or the squared norm of the normal gradient is at most
  \<open>10\<^sup>-\<^sup>1\<^sup>2\<close>, the gradient of the force direction is the normal gradient itself;
  otherwise it is column index - 1 of \<^verbatim>\<open>getTangentBasisMatrixODEGradient\<close> of the normal
  and the normal gradient.
\<close>

theorem getContactForceGradient_by_index:
  assumes "mConstraint c = IsContactConstraint cc"
      and "getDofContactType c dof = Some ty"
      and "ty \<noteq> VERTEX" and "ty \<noteq> NONE" and "ty \<noteq> UNSUPPORTED"
      and "getContactNormalGradient M c dof = Some g"
  shows "(mIndex c = 0 \<longrightarrow> getContactForceGradient M c dof = Some g)
    \<and> (squaredNorm g \<le> 1 / 10 ^ 12 \<longrightarrow> getContactForceGradient M c dof = Some g)
    \<and> (mIndex c \<noteq> 0 \<and> 1 / 10 ^ 12 < squaredNorm g
         \<longrightarrow> getContactForceGradient M c dof
               = col (getTangentBasisMatrixODEGradient cc (normal (getContact cc)) g)
                     (mIndex c - 1))"
  using getContactForceGradient_supported [OF assms] by auto

text \<open>
  The same contact with the normal \<open>(0, 1, 0)\<close>: the normal gradient \<open>(-1, 0, 0)\<close> is
  the force gradient of the normal row; for the first tangent row the force gradient is
  the first column of the gradient of the tangent basis.
\<close>

theorem getContactForceGradient_by_index_witness:
  "getContactForceGradient sampleMath
     (sampleConstraint FACE_VERTEX (Vector3d 0 1 0) foreArm groundBody 0) shoulderDof
     = Some (Vector3d (- 1) 0 0)
   \<and> getContactForceGradient sampleMath
     (sampleConstraint FACE_VERTEX (Vector3d 0 1 0) foreArm groundBody 1) shoulderDof
     = Some (Vector3d 0 1 0)
   \<and> getContactForceGradient sampleMath
     (sampleConstraint FACE_VERTEX tiltedNormal foreArm groundBody 1) shoulderDof
     = Some (Vector3d 0 (8000000 / 16000000000001) 0)"
proof -
  have g: "getContactNormalGradient sampleMath
             (sampleConstraint FACE_VERTEX (Vector3d 0 1 0) foreArm groundBody idx) shoulderDof
           = Some (Vector3d (- 1) 0 0)" for idx
    by (simp add: sample_FACE_normalGradient)
  have gt: "getContactNormalGradient sampleMath
             (sampleConstraint FACE_VERTEX tiltedNormal foreArm groundBody 1) shoulderDof
           = Some (Vector3d 0 (8000000 / 16000000000001) 0)"
    by (simp add: sample_FACE_normalGradient tiltedNormal_def)
  show ?thesis
    using getContactForceGradient_by_index
            [OF sampleConstraint_sel(1) sample_FACE _ _ _ g, of 0]
          getContactForceGradient_by_index
            [OF sampleConstraint_sel(1) sample_FACE _ _ _ g, of 1]
          getContactForceGradient_by_index
            [OF sampleConstraint_sel(1) sample_FACE _ _ _ gt]
    by (simp add: sampleConstraint_sel sampleContact_sel squaredNorm_def col_def
          sampleTangentBasisGradient_def)
qed

section \<open>Generalised constraint forces\<close>

lemma getWorldForce_eq:
  assumes "getContactWorldPosition c = Some p"
      and "getContactWorldForceDirection c = Some f"
  shows "getWorldForce c = Some (Vector6d (cross p f) f)"
  using assms by (simp add: getWorldForce_def)

lemma constraintForcesLoop_sound:
  "constraintForcesLoop M c wforce dofs = Some taus \<Longrightarrow>
   list_all2
     (\<lambda>dof tau. \<exists>m. getForceMultiple c dof = Some m
        \<and> (if m = 0 then tau = 0
            else \<exists>ws. getWorldScrewAxis M dof = Some ws \<and> tau = dot ws wforce * m))
     dofs taus"
proof (induction dofs arbitrary: taus)
  case Nil
  then show ?case by simp
next
  case (Cons dof dofs)
  from Cons.prems obtain m tau rest where
    m: "getForceMultiple c dof = Some m"
    and tau: "(if m = 0 then Some 0
               else getWorldScrewAxis M dof \<bind> (\<lambda>ws. Some (dot ws wforce * m))) = Some tau"
    and rest: "constraintForcesLoop M c wforce dofs = Some rest"
    and taus: "taus = tau # rest"
    by (auto simp add: bind_eq_Some_conv)
  from tau have "if m = 0 then tau = 0
                 else \<exists>ws. getWorldScrewAxis M dof = Some ws \<and> tau = dot ws wforce * m"
    by (cases "m = 0") (auto simp add: bind_eq_Some_conv)
  with m Cons.IH [OF rest] taus show ?case by auto
qed

lemma constraintForcesLoop_returns:
  "(\<And>d. d \<in> set dofs \<Longrightarrow> getForceMultiple c d \<noteq> None \<and> getWorldScrewAxis M d \<noteq> None) \<Longrightarrow>
   \<exists>taus. constraintForcesLoop M c wforce dofs = Some taus"
proof (induction dofs)
  case Nil
  then show ?case by simp
next
  case (Cons dof dofs)
  from Cons.prems [of dof] obtain m ws where
    "getForceMultiple c dof = Some m" "getWorldScrewAxis M dof = Some ws"
    by auto
  moreover from Cons obtain rest where "constraintForcesLoop M c wforce dofs = Some rest"
    by auto
  ultimately show ?case by simp
qed

text \<open>
  C5. For a skeleton that the constraint does not touch, \<^verbatim>\<open>getConstraintForces\<close>
  returns the zero vector of length \<open>|S.dofs|\<close>. For a skeleton it touches, it returns a
  vector of that length whose \<open>i\<close>-th entry is the force multiple of the \<open>i\<close>-th degree of
  freedom times the dot product of its world screw axis with the world force
  \<open>[point \<times> direction; direction]\<close>; where the multiple is 0 the entry is 0.
\<close>

theorem getConstraintForces_entries:
  "(getName skel \<notin> set (mSkeletons c)
      \<longrightarrow> getConstraintForces M c skel = Some (replicate (length (getDofs skel)) 0))
   \<and> (getName skel \<in> set (mSkeletons c)
       \<and> getContactWorldPosition c = Some p
       \<and> getContactWorldForceDirection c = Some f
       \<and> (\<forall>d \<in> set (getDofs skel).
             getForceMultiple c d \<noteq> None \<and> getWorldScrewAxis M d \<noteq> None)
      \<longrightarrow> (\<exists>taus. getConstraintForces M c skel = Some taus
             \<and> length taus = length (getDofs skel)
             \<and> (\<forall>i < length (getDofs skel). \<exists>m ws.
                   getForceMultiple c (getDofs skel ! i) = Some m
                   \<and> getWorldScrewAxis M (getDofs skel ! i) = Some ws
                   \<and> taus ! i = m * dot ws (Vector6d (cross p f) f)
                   \<and> (m = 0 \<longrightarrow> taus ! i = 0))))"
proof (intro conjI impI)
  assume "getName skel \<notin> set (mSkeletons c)"
  then show "getConstraintForces M c skel = Some (replicate (length (getDofs skel)) 0)"
    by (simp add: getConstraintForces_def)
next
  let ?W = "Vector6d (cross p f) f"
  assume h: "getName skel \<in> set (mSkeletons c)
       \<and> getContactWorldPosition c = Some p
       \<and> getContactWorldForceDirection c = Some f
       \<and> (\<forall>d \<in> set (getDofs skel).
             getForceMultiple c d \<noteq> None \<and> getWorldScrewAxis M d \<noteq> None)"
  then have wforce: "getWorldForce c = Some ?W"
    by (simp add: getWorldForce_eq)
  from h obtain taus where loop: "constraintForcesLoop M c ?W (getDofs skel) = Some taus"
    using constraintForcesLoop_returns [of "getDofs skel" c M ?W] by blast
  have res: "getConstraintForces M c skel = Some taus"
    using h wforce loop by (simp add: getConstraintForces_def)
  note all2 = constraintForcesLoop_sound [OF loop]
  have len: "length taus = length (getDofs skel)"
    using all2 by (simp add: list_all2_lengthD)
  have entries: "\<exists>m ws. getForceMultiple c (getDofs skel ! i) = Some m
                   \<and> getWorldScrewAxis M (getDofs skel ! i) = Some ws
                   \<and> taus ! i = m * dot ws ?W
                   \<and> (m = 0 \<longrightarrow> taus ! i = 0)"
    if i: "i < length (getDofs skel)" for i
  proof -
    from h i obtain ws where ws: "getWorldScrewAxis M (getDofs skel ! i) = Some ws"
      by (metis nth_mem not_None_eq)
    from list_all2_nthD [OF all2 i] obtain m where
      m: "getForceMultiple c (getDofs skel ! i) = Some m"
      and t: "if m = 0 then taus ! i = 0
              else \<exists>ws. getWorldScrewAxis M (getDofs skel ! i) = Some ws
                        \<and> taus ! i = dot ws ?W * m"
      by blast
    from t ws have "taus ! i = m * dot ws ?W \<and> (m = 0 \<longrightarrow> taus ! i = 0)"
      by (cases "m = 0") auto
    with m ws show ?thesis by blast
  qed
  show "\<exists>taus. getConstraintForces M c skel = Some taus
             \<and> length taus = length (getDofs skel)
             \<and> (\<forall>i < length (getDofs skel). \<exists>m ws.
                   getForceMultiple c (getDofs skel ! i) = Some m
                   \<and> getWorldScrewAxis M (getDofs skel ! i) = Some ws
                   \<and> taus ! i = m * dot ws (Vector6d (cross p f) f)
                   \<and> (m = 0 \<longrightarrow> taus ! i = 0))"
    using res len entries by blast
qed

lemma sample_forceMultiple:
  "getForceMultiple (sampleConstraint ty n foreArm groundBody idx) shoulderDof = Some 1"
  "getForceMultiple (sampleConstraint ty n foreArm groundBody idx) elbowDof = Some 1"
  "getForceMultiple (sampleConstraint ty n foreArm groundBody idx) groundDof = Some (- 1)"
  by (simp_all add: getForceMultiple_def sampleConstraint_sel isParent_examples)

lemma sample_position:
  "getContactWorldPosition (sampleConstraint ty n bodyA bodyB idx) = Some (Vector3d 1 2 3)"
  by (simp add: getContactWorldPosition_def sampleConstraint_sel sampleContact_sel)

lemma sample_forceDirection:
  "getContactWorldForceDirection (sampleConstraint ty (Vector3d 0 1 0) bodyA bodyB 0)
     = Some (Vector3d 0 1 0)"
  "getContactWorldForceDirection (sampleConstraint ty (Vector3d 0 1 0) bodyA bodyB 1)
     = Some (Vector3d 1 0 0)"
  by (simp_all add: getContactWorldForceDirection_def sampleConstraint_sel sampleContact_sel
        sampleTangentBasis_def col_def)

text \<open>
  The first tangent row of the contact between forearm and ground: the world force is
  \<open>[(0, 3, -2); (1, 0, 0)]\<close>, the shoulder turns about \<open>z\<close> and the elbow about \<open>y\<close>, so
  the forces on the arm are \<open>-2\<close> and \<open>3\<close>. The same row of a constraint that touches
  the arm only gives zero on the ground skeleton.
\<close>

theorem getConstraintForces_entries_witness:
  "(\<exists>taus. getConstraintForces sampleMath
       (sampleConstraint VERTEX_FACE (Vector3d 0 1 0) foreArm groundBody 1) armSkeleton = Some taus
       \<and> length taus = 2 \<and> taus ! 0 = - 2 \<and> taus ! 1 = 3)
   \<and> getConstraintForces sampleMath
       ((sampleConstraint VERTEX_FACE (Vector3d 0 1 0) foreArm upperArm 1)
          \<lparr> mSkeletons := [''arm''] \<rparr>) groundSkeleton = Some [0]"
proof -
  let ?c = "sampleConstraint VERTEX_FACE (Vector3d 0 1 0) foreArm groundBody 1"
  let ?W = "Vector6d (cross (Vector3d 1 2 3) (Vector3d 1 0 0)) (Vector3d 1 0 0)"
  have dofs: "getDofs armSkeleton = [shoulderDof, elbowDof]"
    by (simp add: armSkeleton_def)
  have touched: "getName armSkeleton \<in> set (mSkeletons ?c)"
    by (simp add: armSkeleton_def sampleConstraint_sel)
  have ok: "\<forall>d \<in> set (getDofs armSkeleton).
              getForceMultiple ?c d \<noteq> None \<and> getWorldScrewAxis sampleMath d \<noteq> None"
    by (simp add: dofs sample_forceMultiple sample_worldScrewAxis)
  from getConstraintForces_entries
         [of armSkeleton ?c sampleMath "Vector3d 1 2 3" "Vector3d 1 0 0"]
       touched ok sample_position sample_forceDirection(2)
  obtain taus where
    res: "getConstraintForces sampleMath ?c armSkeleton = Some taus"
    and len: "length taus = length (getDofs armSkeleton)"
    and ent: "\<forall>i < length (getDofs armSkeleton). \<exists>m ws.
                getForceMultiple ?c (getDofs armSkeleton ! i) = Some m
                \<and> getWorldScrewAxis sampleMath (getDofs armSkeleton ! i) = Some ws
                \<and> taus ! i = m * dot ws ?W
                \<and> (m = 0 \<longrightarrow> taus ! i = 0)"
    by blast
  from ent [rule_format, of 0] have t0: "taus ! 0 = - 2"
    by (simp add: dofs sample_forceMultiple sample_worldScrewAxis zAxisTwist_def)
  from ent [rule_format, of 1] have t1: "taus ! 1 = 3"
    by (simp add: dofs sample_forceMultiple sample_worldScrewAxis yAxisTwist_def)
  have untouched: "getName groundSkeleton \<notin> set (mSkeletons
      ((sampleConstraint VERTEX_FACE (Vector3d 0 1 0) foreArm upperArm 1)
          \<lparr> mSkeletons := [''arm''] \<rparr>))"
    by (simp add: groundSkeleton_def)
  from getConstraintForces_entries
         [of groundSkeleton "(sampleConstraint VERTEX_FACE (Vector3d 0 1 0) foreArm upperArm 1)
          \<lparr> mSkeletons := [''arm''] \<rparr>" sampleMath "Vector3d 1 2 3" "Vector3d 1 0 0"]
       untouched
  have z: "getConstraintForces sampleMath
       ((sampleConstraint VERTEX_FACE (Vector3d 0 1 0) foreArm upperArm 1)
          \<lparr> mSkeletons := [''arm''] \<rparr>) groundSkeleton = Some [0]"
    by (simp add: groundSkeleton_def)
  from res len t0 t1 z show ?thesis by (simp add: dofs)
qed

section \<open>Constraints that are not contact constraints\<close>

lemma dot_Zero6: "dot ws Zero6 = 0"
  by (cases ws; cases "head3 ws"; cases "tail3 ws") (simp add: Zero6_def Zero3_def)

lemma cross_Zero3: "cross Zero3 Zero3 = Zero3"
  by (simp add: Zero3_def)

lemma constraintForcesLoop_other:
  assumes "mConstraint c = OtherConstraint"
      and "\<And>d. d \<in> set dofs \<Longrightarrow> getWorldScrewAxis M d \<noteq> None"
  shows "constraintForcesLoop M c Zero6 dofs = Some (replicate (length dofs) 0)"
  using assms(2)
proof (induction dofs)
  case Nil
  then show ?case by simp
next
  case (Cons dof dofs)
  from Cons.prems [of dof] obtain ws where "getWorldScrewAxis M dof = Some ws"
    by auto
  moreover have "getForceMultiple c dof = Some 1"
    using assms(1) by (simp add: getForceMultiple_def)
  moreover have "constraintForcesLoop M c Zero6 dofs = Some (replicate (length dofs) 0)"
    using Cons by simp
  ultimately show ?case by (simp add: dot_Zero6)
qed

text \<open>
  C10. If the wrapped constraint is not a contact constraint, the world position, normal
  and force direction are the zero vector, the world force is the zero 6-vector, the
  force multiple of every degree of freedom is 1, and every entry of
  \<^verbatim>\<open>getConstraintForces\<close> is zero.
\<close>

theorem other_constraint_forces_zero:
  assumes "mConstraint c = OtherConstraint"
  shows "getContactWorldPosition c = Some Zero3
    \<and> getContactWorldNormal c = Some Zero3
    \<and> getContactWorldForceDirection c = Some Zero3
    \<and> getWorldForce c = Some Zero6
    \<and> getForceMultiple c dof = Some 1
    \<and> ((\<forall>d \<in> set (getDofs skel). getWorldScrewAxis M d \<noteq> None)
         \<longrightarrow> getConstraintForces M c skel = Some (replicate (length (getDofs skel)) 0))"
proof -
  have p: "getContactWorldPosition c = Some Zero3"
    using assms by (simp add: getContactWorldPosition_def)
  have n: "getContactWorldNormal c = Some Zero3"
    using assms by (simp add: getContactWorldNormal_def)
  have f: "getContactWorldForceDirection c = Some Zero3"
    using assms by (simp add: getContactWorldForceDirection_def)
  have w: "getWorldForce c = Some Zero6"
    using p f by (simp add: getWorldForce_def cross_Zero3 Zero6_def)
  have m: "getForceMultiple c dof = Some 1"
    using assms by (simp add: getForceMultiple_def)
  have t: "getConstraintForces M c skel = Some (replicate (length (getDofs skel)) 0)"
    if "\<forall>d \<in> set (getDofs skel). getWorldScrewAxis M d \<noteq> None"
    using that w constraintForcesLoop_other [OF assms, of "getDofs skel" M]
    by (simp add: getConstraintForces_def)
  from p n f w m t show ?thesis by blast
qed

theorem other_constraint_forces_zero_witness:
  "getWorldForce sampleOtherConstraint = Some Zero6
   \<and> getForceMultiple sampleOtherConstraint elbowDof = Some 1
   \<and> getConstraintForces sampleMath sampleOtherConstraint armSkeleton = Some [0, 0]
   \<and> getConstraintForces sampleMath sampleOtherConstraint groundSkeleton = Some [0]"
proof -
  have o: "mConstraint sampleOtherConstraint = OtherConstraint"
    by (simp add: sampleOtherConstraint_def)
  show ?thesis
    using other_constraint_forces_zero [OF o, of elbowDof armSkeleton sampleMath]
          other_constraint_forces_zero [OF o, of elbowDof groundSkeleton sampleMath]
    by (simp add: armSkeleton_def groundSkeleton_def sample_worldScrewAxis)
qed

section \<open>Screw axis gradient and the derivative of the constraint force\<close>

text \<open>
  C6. The gradient of the screw axis of \<open>row\<close> with respect to \<open>wrt\<close> is the zero
  6-vector when \<open>wrt\<close> is not a parent of \<open>row\<close> (the test \<^verbatim>\<open>isParent(wrt, row)\<close> on
  two degrees of freedom), and otherwise \<^verbatim>\<open>ad\<close> of the world screw axis of \<open>wrt\<close> and
  the world screw axis of \<open>row\<close>. The derivative of the constraint force is the force
  multiple of \<open>row\<close> times the sum of the screw axis gradient dotted with the world force
  and the world screw axis of \<open>row\<close> dotted with the gradient of the world force.
\<close>

theorem getConstraintForceDerivative_product_rule:
  "(\<not> isParentDof wrt row \<longrightarrow> getScrewAxisGradient M row wrt = Some Zero6)
   \<and> (isParentDof wrt row
       \<and> getWorldScrewAxis M row = Some wsRow \<and> getWorldScrewAxis M wrt = Some wsWrt
      \<longrightarrow> getScrewAxisGradient M row wrt = Some (ad M wsWrt wsRow))
   \<and> (getForceMultiple c row = Some m
       \<and> getWorldForce c = Some worldForce
       \<and> getContactWorldForceGradient M c wrt = Some forceGradient
       \<and> getScrewAxisGradient M row wrt = Some screwGradient
       \<and> getWorldScrewAxis M row = Some wsRow
      \<longrightarrow> getConstraintForceDerivative M c row wrt
            = Some (m * (dot screwGradient worldForce + dot wsRow forceGradient)))
   \<and> (getForceMultiple c row = Some m
       \<and> getWorldForce c = Some worldForce
       \<and> getContactWorldForceGradient M c wrt = Some forceGradient
       \<and> getWorldScrewAxis M row = Some wsRow \<and> getWorldScrewAxis M wrt = Some wsWrt
      \<longrightarrow> getConstraintForceDerivative M c row wrt
            = Some (m * (dot (if isParentDof wrt row then ad M wsWrt wsRow else Zero6) worldForce
                         + dot wsRow forceGradient)))"
proof (intro conjI impI)
  show "getScrewAxisGradient M row wrt = Some Zero6" if "\<not> isParentDof wrt row"
    using that by (simp add: getScrewAxisGradient_def)
next
  assume "isParentDof wrt row
       \<and> getWorldScrewAxis M row = Some wsRow \<and> getWorldScrewAxis M wrt = Some wsWrt"
  then show "getScrewAxisGradient M row wrt = Some (ad M wsWrt wsRow)"
    by (simp add: getScrewAxisGradient_def)
next
  assume "getForceMultiple c row = Some m
       \<and> getWorldForce c = Some worldForce
       \<and> getContactWorldForceGradient M c wrt = Some forceGradient
       \<and> getScrewAxisGradient M row wrt = Some screwGradient
       \<and> getWorldScrewAxis M row = Some wsRow"
  then show "getConstraintForceDerivative M c row wrt
            = Some (m * (dot screwGradient worldForce + dot wsRow forceGradient))"
    by (simp add: getConstraintForceDerivative_def algebra_simps)
next
  assume h: "getForceMultiple c row = Some m
       \<and> getWorldForce c = Some worldForce
       \<and> getContactWorldForceGradient M c wrt = Some forceGradient
       \<and> getWorldScrewAxis M row = Some wsRow \<and> getWorldScrewAxis M wrt = Some wsWrt"
  then have "getScrewAxisGradient M row wrt
               = Some (if isParentDof wrt row then ad M wsWrt wsRow else Zero6)"
    by (simp add: getScrewAxisGradient_def)
  with h show "getConstraintForceDerivative M c row wrt
            = Some (m * (dot (if isParentDof wrt row then ad M wsWrt wsRow else Zero6) worldForce
                         + dot wsRow forceGradient))"
    by (simp add: getConstraintForceDerivative_def algebra_simps)
qed

lemma sample_isParentDof:
  "isParentDof shoulderDof elbowDof"
  "\<not> isParentDof elbowDof shoulderDof"
  "\<not> isParentDof shoulderDof shoulderDof"
  "\<not> isParentDof groundDof elbowDof"
  by (simp_all add: isParentDof_def example_defs)

lemma sample_VERTEX:
  "getDofContactType (sampleConstraint VERTEX_FACE n foreArm groundBody idx) shoulderDof
     = Some VERTEX"
  by (simp add: getDofContactType_def getContactType_def sampleConstraint_sel
        sampleContact_sel isParent_examples)

lemma sample_worldForceGradient:
  "getContactWorldForceGradient sampleMath
     (sampleConstraint VERTEX_FACE (Vector3d 0 1 0) foreArm groundBody 0) shoulderDof
     = Some (Vector6d (Vector3d 0 0 (- 2)) (Vector3d 0 0 0))"
  by (simp add: getContactWorldForceGradient_def getContactForceGradient_def
        getContactPositionGradient_def sample_VERTEX sample_position sample_forceDirection
        inlineWorldTwist_eq sample_worldScrewAxis)
     (simp add: sampleMath_def zAxisTwist_def Zero3_def)

text \<open>
  Row elbow, with respect to the shoulder, for the normal row of the vertex-face contact
  between forearm and ground: the shoulder is a parent of the elbow, the screw axis
  gradient is \<open>[(-1, 0, 0); 0]\<close>, the world force \<open>[(-3, 0, 1); (0, 1, 0)]\<close>, and the
  derivative is \<open>3\<close>. The elbow is not a parent of the shoulder.
\<close>

theorem getConstraintForceDerivative_product_rule_witness:
  "getScrewAxisGradient sampleMath elbowDof shoulderDof
     = Some (Vector6d (Vector3d (- 1) 0 0) (Vector3d 0 0 0))
   \<and> getScrewAxisGradient sampleMath shoulderDof elbowDof = Some Zero6
   \<and> getConstraintForceDerivative sampleMath
       (sampleConstraint VERTEX_FACE (Vector3d 0 1 0) foreArm groundBody 0) elbowDof shoulderDof
     = Some 3"
proof -
  let ?c = "sampleConstraint VERTEX_FACE (Vector3d 0 1 0) foreArm groundBody 0"
  have g: "getScrewAxisGradient sampleMath elbowDof shoulderDof
             = Some (Vector6d (Vector3d (- 1) 0 0) (Vector3d 0 0 0))"
    using getConstraintForceDerivative_product_rule
            [of shoulderDof elbowDof sampleMath yAxisTwist zAxisTwist]
    by (simp add: sample_isParentDof sample_worldScrewAxis)
       (simp add: sampleMath_def yAxisTwist_def zAxisTwist_def)
  have z: "getScrewAxisGradient sampleMath shoulderDof elbowDof = Some Zero6"
    using getConstraintForceDerivative_product_rule [of elbowDof shoulderDof sampleMath]
    by (simp add: sample_isParentDof)
  have w: "getWorldForce ?c = Some (Vector6d (Vector3d (- 3) 0 1) (Vector3d 0 1 0))"
    by (simp add: getWorldForce_eq [OF sample_position sample_forceDirection(1)])
  have d: "getConstraintForceDerivative sampleMath ?c elbowDof shoulderDof = Some 3"
    using getConstraintForceDerivative_product_rule
            [of shoulderDof elbowDof sampleMath yAxisTwist zAxisTwist ?c 1
                "Vector6d (Vector3d (- 3) 0 1) (Vector3d 0 1 0)"
                "Vector6d (Vector3d 0 0 (- 2)) (Vector3d 0 0 0)"
                "Vector6d (Vector3d (- 1) 0 0) (Vector3d 0 0 0)"]
          g w
    by (simp add: sample_forceMultiple sample_worldForceGradient sample_worldScrewAxis)
       (simp add: yAxisTwist_def)
  from g z d show ?thesis by simp
qed

section \<open>The Dantzig solver catches every exception\<close>

text \<open>
  C9. \<^verbatim>\<open>DantzigBoxedLcpSolver::solve\<close> never throws: when \<^verbatim>\<open>dSolveLCP\<close> throws it
  returns false, and when \<^verbatim>\<open>dSolveLCP\<close> returns it returns the same value.
  \<^verbatim>\<open>dSolveLCP\<close> is called with a null \<open>w\<close> and with \<open>nub = 0\<close>, whatever \<open>nub\<close> the
  caller gave.
\<close>

theorem solve_never_throws:
  "(\<forall>e arrays'. solve dSolveLCP n arrays nub earlyTermination \<noteq> Thrown e arrays')
   \<and> (\<forall>e arrays'. dSolveLCP n arrays None 0 earlyTermination = Thrown e arrays'
         \<longrightarrow> solve dSolveLCP n arrays nub earlyTermination = Returned False arrays')
   \<and> (\<forall>r arrays'. dSolveLCP n arrays None 0 earlyTermination = Returned r arrays'
         \<longrightarrow> solve dSolveLCP n arrays nub earlyTermination = Returned r arrays')"
  by (simp add: solve_def split: outcome.splits)

theorem solve_never_throws_witness:
  "solve sampleSolveLCP 0 sampleArrays 0 False = Returned False sampleArrays
   \<and> solve sampleSolveLCP 1 sampleArrays 0 False = Returned True (sampleArrays \<lparr> lcpX := [3] \<rparr>)"
  using solve_never_throws [of sampleSolveLCP 0 sampleArrays 0 False]
        solve_never_throws [of sampleSolveLCP 1 sampleArrays 0 False]
  by (auto simp add: sampleSolveLCP_def)


end
